theory Spec2Isabelle
  imports Complex_Main
begin

section \<open>Data model\<close>

text \<open>
  The molecule record consumed by both views (\<^verbatim>\<open>MoleculeData\<close>, \<^verbatim>\<open>Atom\<close> and the bond
  objects of \<^verbatim>\<open>src/services/gemini.ts\<close>). JavaScript numbers are modelled as exact reals
  (coordinates) and integers (indices, orders, counts): rounding and non-finite inputs are
  outside the model, and so is overflow, except in the section on JavaScript numbers. The descriptive fields of the record (formula, name, ...)
  play no part in the geometry and are left out. The JavaScript fields \<^verbatim>\<open>id\<close>, \<^verbatim>\<open>x\<close> and \<^verbatim>\<open>y\<close>
  are called \<open>ident\<close>, \<open>pos_x\<close> and \<open>pos_y\<close>.
\<close>

record Atom =
  ident :: int
  element :: string
  x2d :: real
  y2d :: real
  x3d :: real
  y3d :: real
  z3d :: real
  lonePairs :: int
  charge :: int

record Bond =
  source :: int
  target :: int
  order :: int

record MoleculeData =
  atoms :: "Atom list"
  bonds :: "Bond list"

text \<open>\<^verbatim>\<open>{...atom, x: ..., y: ...}\<close>: the atom with two more fields.\<close>

record ScaledAtom = Atom +
  pos_x :: real
  pos_y :: real

text \<open>The four numbers of the \<^verbatim>\<open>viewBox\<close> attribute string.\<close>

record ViewBox =
  boxX :: real
  boxY :: real
  boxW :: real
  boxH :: real

record Layout =
  normalizedAtoms :: "ScaledAtom list"
  layoutBonds :: "Bond list"
  viewBox :: ViewBox

text \<open>
  \<^verbatim>\<open>arr[i]\<close> on a JavaScript array: \<^verbatim>\<open>undefined\<close> (here \<open>None\<close>) for an index that is
  negative or not below the length. Atoms are objects, hence truthy, so the tests
  \<^verbatim>\<open>source && target\<close> and \<^verbatim>\<open>!start || !end\<close> only ask whether both lookups succeed.
\<close>

definition lookup :: "'a list \<Rightarrow> int \<Rightarrow> 'a option" where
  "lookup xs i = (if 0 \<le> i \<and> i < int (length xs) then Some (xs ! nat i) else None)"

section \<open>The 2D layout (LewisStructure.tsx, lines 14--71)\<close>

text \<open>The body of the first \<^verbatim>\<open>forEach\<close>: one bond's contribution to \<^verbatim>\<open>totalLength\<close>, \<^verbatim>\<open>bondCount\<close>.\<close>

definition bondPass :: "'a Atom_scheme list \<Rightarrow> real \<times> nat \<Rightarrow> Bond \<Rightarrow> real \<times> nat" where
  "bondPass as acc bond =
     (case lookup as (source bond) of
        None \<Rightarrow> acc
      | Some s \<Rightarrow>
         (case lookup as (target bond) of
            None \<Rightarrow> acc
          | Some t \<Rightarrow>
             (let dx = x2d s - x2d t;
                  dy = y2d s - y2d t
              in (fst acc + sqrt (dx * dx + dy * dy), snd acc + 1))))"

definition avgLen :: "MoleculeData \<Rightarrow> real" where
  "avgLen data =
     (let tc = foldl (bondPass (atoms data)) (0, 0) (bonds data);
          totalLength = fst tc;
          bondCount = snd tc
      in if bondCount > 0 then totalLength / real bondCount else 1)"

definition TARGET_BOND_LENGTH :: real where
  "TARGET_BOND_LENGTH = 60"

definition scale :: "MoleculeData \<Rightarrow> real" where
  "scale data =
     (if avgLen data > 1 / 1000 then TARGET_BOND_LENGTH / avgLen data else 60)"

definition scaleAtom :: "real \<Rightarrow> Atom \<Rightarrow> ScaledAtom" where
  "scaleAtom sc atom = Atom.extend atom (ScaledAtom.fields (x2d atom * sc) (y2d atom * sc))"

definition PADDING :: real where
  "PADDING = 40"

text \<open>
  The second \<^verbatim>\<open>forEach\<close>: the accumulator is \<open>(minX, maxX, minY, maxY)\<close>. The source starts it
  at \<open>(Infinity, -Infinity, Infinity, -Infinity)\<close>; \<open>bboxInit\<close> is its value after the first
  atom, since \<^verbatim>\<open>Math.min(Infinity, v) = v = Math.max(-Infinity, v)\<close>. The loop only runs on a
  non-empty list, because the empty one has returned before.
\<close>

definition bboxStep :: "real \<times> real \<times> real \<times> real \<Rightarrow> ScaledAtom \<Rightarrow> real \<times> real \<times> real \<times> real" where
  "bboxStep acc a =
     (case acc of (minX, maxX, minY, maxY) \<Rightarrow>
        (min minX (pos_x a), max maxX (pos_x a), min minY (pos_y a), max maxY (pos_y a)))"

definition bboxInit :: "ScaledAtom \<Rightarrow> real \<times> real \<times> real \<times> real" where
  "bboxInit a = (pos_x a, pos_x a, pos_y a, pos_y a)"

definition frame :: "real \<times> real \<times> real \<times> real \<Rightarrow> ViewBox" where
  "frame bb =
     (case bb of (minX, maxX, minY, maxY) \<Rightarrow>
        \<lparr>boxX = minX - PADDING, boxY = minY - PADDING,
         boxW = (maxX - minX) + PADDING * 2, boxH = (maxY - minY) + PADDING * 2\<rparr>)"

definition layout :: "MoleculeData \<Rightarrow> Layout" where
  "layout data =
     (case atoms data of
        [] \<Rightarrow> \<lparr>normalizedAtoms = [], layoutBonds = [],
               viewBox = \<lparr>boxX = 0, boxY = 0, boxW = 100, boxH = 100\<rparr>\<rparr>
      | a # as \<Rightarrow>
         (let scaledAtoms = map (scaleAtom (scale data)) (a # as);
              bb = foldl bboxStep (bboxInit (hd scaledAtoms)) (tl scaledAtoms)
          in \<lparr>normalizedAtoms = scaledAtoms, layoutBonds = bonds data, viewBox = frame bb\<rparr>))"

section \<open>2D bond rendering (LewisStructure.tsx, lines 89--152)\<close>

text \<open>A \<^verbatim>\<open><line x1 y1 x2 y2>\<close> element; the stroke style is the same for all of them.\<close>

datatype svgLine = Line real real real real

text \<open>
  The callback of \<^verbatim>\<open>bonds.map\<close>: the lines drawn for one bond, \<open>[]\<close> where the source
  returns \<^verbatim>\<open>null\<close>. A \<^verbatim>\<open><g></g>\<close> around two or three lines carries no transform and is not
  modelled.
\<close>

definition bondLines :: "ScaledAtom list \<Rightarrow> Bond \<Rightarrow> svgLine list" where
  "bondLines nas bond =
     (case lookup nas (source bond) of
        None \<Rightarrow> []
      | Some start \<Rightarrow>
         (case lookup nas (target bond) of
            None \<Rightarrow> []
          | Some endA \<Rightarrow>
             (let dx = pos_x endA - pos_x start;
                  dy = pos_y endA - pos_y start;
                  len = sqrt (dx * dx + dy * dy)
              in if len < 1 then []
                 else
                  (let nx = - dy / len;
                       ny = dx / len;
                       offset = 3
                   in if order bond = 1 then
                        [Line (pos_x start) (pos_y start) (pos_x endA) (pos_y endA)]
                      else if order bond = 2 then
                        [Line (pos_x start + nx * offset) (pos_y start + ny * offset)
                              (pos_x endA + nx * offset) (pos_y endA + ny * offset),
                         Line (pos_x start - nx * offset) (pos_y start - ny * offset)
                              (pos_x endA - nx * offset) (pos_y endA - ny * offset)]
                      else if order bond = 3 then
                        [Line (pos_x start) (pos_y start) (pos_x endA) (pos_y endA),
                         Line (pos_x start + nx * offset * (5 / 2)) (pos_y start + ny * offset * (5 / 2))
                              (pos_x endA + nx * offset * (5 / 2)) (pos_y endA + ny * offset * (5 / 2)),
                         Line (pos_x start - nx * offset * (5 / 2)) (pos_y start - ny * offset * (5 / 2))
                              (pos_x endA - nx * offset * (5 / 2)) (pos_y endA - ny * offset * (5 / 2))]
                      else []))))"

text \<open>What the component draws for the bonds of a molecule: one list of lines per bond.\<close>

definition renderBonds :: "MoleculeData \<Rightarrow> svgLine list list" where
  "renderBonds data =
     (let l = layout data in map (bondLines (normalizedAtoms l)) (layoutBonds l))"

section \<open>Atom decorations (LewisStructure.tsx, lines 155--224)\<close>

text \<open>
  The emitted SVG tree, as far as geometry goes: circles (centre, radius, stroke width),
  text, and groups with a transform list. \<open>Rotate\<close> takes degrees, as the attribute does.
\<close>

datatype transform = Translate real real | Rotate real

datatype svg =
    Circle real real real real
  | Text string
  | Group "transform list" "svg list"

text \<open>
  \<^verbatim>\<open>atom.element.toUpperCase() === 'H'\<close>: exactly the strings \<^verbatim>\<open>H\<close> and \<^verbatim>\<open>h\<close> upper-case to
  \<^verbatim>\<open>H\<close>.
\<close>

definition isHydrogen :: "'a Atom_scheme \<Rightarrow> bool" where
  "isHydrogen atom = (element atom = ''H'' \<or> element atom = ''h'')"

definition atomRadius :: "'a Atom_scheme \<Rightarrow> real" where
  "atomRadius atom = (if isHydrogen atom then 10 else 14)"

text \<open>The callback of \<^verbatim>\<open>Array.from({ length: atom.lonePairs }).map\<close>, for index \<open>i\<close>.\<close>

definition pairMarker :: "int \<Rightarrow> nat \<Rightarrow> svg" where
  "pairMarker k i =
     (let angle = (real i * 2 * pi) / real_of_int (max k 1) - pi / 2;
          dist = 6
      in Group [Rotate ((angle * 180) / pi), Translate 0 (- dist)]
           [Circle (- (5 / 2)) 0 (9 / 5) 0, Circle (5 / 2) 0 (9 / 5) 0])"

definition lonePairMarkers :: "'a Atom_scheme \<Rightarrow> svg list" where
  "lonePairMarkers atom = map (pairMarker (lonePairs atom)) [0 ..< nat (lonePairs atom)]"

definition lonePairGroup :: "bool \<Rightarrow> 'a Atom_scheme \<Rightarrow> svg list" where
  "lonePairGroup showLonePairs atom =
     (if showLonePairs \<and> lonePairs atom > 0
      then [Group [Translate 0 (- (atomRadius atom + 4))] (lonePairMarkers atom)]
      else [])"

definition chargeGroup :: "bool \<Rightarrow> 'a Atom_scheme \<Rightarrow> svg list" where
  "chargeGroup showCharges atom =
     (if showCharges \<and> charge atom \<noteq> 0
      then [Group [Translate (atomRadius atom - 4) (- (atomRadius atom - 4))]
              [Circle 0 0 6 1, Text (if charge atom > 0 then ''+'' else ''-'')]]
      else [])"

definition atomGroup :: "bool \<Rightarrow> bool \<Rightarrow> ScaledAtom \<Rightarrow> svg" where
  "atomGroup showLonePairs showCharges atom =
     Group [Translate (pos_x atom) (pos_y atom)]
       ([Circle 0 0 (atomRadius atom) 2, Text (element atom)]
        @ lonePairGroup showLonePairs atom
        @ chargeGroup showCharges atom)"

subsection \<open>Where SVG puts these elements\<close>

text \<open>
  The SVG rules for \<^verbatim>\<open>transform\<close>: \<^verbatim>\<open>translate(tx, ty)\<close> adds, \<^verbatim>\<open>rotate(a)\<close> turns by \<open>a\<close>
  degrees with the matrix \<open>(cos a, -sin a; sin a, cos a)\<close>, and a list \<^verbatim>\<open>A B\<close> maps a point
  \<open>p\<close> of the element to \<open>A (B p)\<close> in the parent.
\<close>

fun applyTransform :: "transform \<Rightarrow> real \<times> real \<Rightarrow> real \<times> real" where
  "applyTransform (Translate tx ty) (x, y) = (x + tx, y + ty)"
| "applyTransform (Rotate a) (x, y) =
     (x * cos (a * pi / 180) - y * sin (a * pi / 180),
      x * sin (a * pi / 180) + y * cos (a * pi / 180))"

definition applyTransforms :: "transform list \<Rightarrow> real \<times> real \<Rightarrow> real \<times> real" where
  "applyTransforms ts p = foldr applyTransform ts p"

text \<open>
  The circles of a tree in the coordinates of its parent, each as (centre x, centre y,
  extent), the extent being the radius plus half the stroke width.
\<close>

fun circles :: "svg \<Rightarrow> (real \<times> real \<times> real) list" where
  "circles (Circle cx cy r sw) = [(cx, cy, r + sw / 2)]"
| "circles (Text s) = []"
| "circles (Group ts cs) =
     map (\<lambda>(cx, cy, e). (fst (applyTransforms ts (cx, cy)), snd (applyTransforms ts (cx, cy)), e))
       (concat (map circles cs))"



section \<open>3D bond geometry (Molecule3D.tsx, lines 55--113 and 143--152)\<close>

record Vector3 =
  vx :: real
  vy :: real
  vz :: real

record Quaternion =
  qx :: real
  qy :: real
  qz :: real
  qw :: real

text \<open>
  A \<^verbatim>\<open><mesh key position quaternion>\<close> with its
  \<^verbatim>\<open><cylinderGeometry args={[radius, radius, length, 16]}>\<close>.
\<close>

record Mesh =
  key :: string
  position :: Vector3
  quaternion :: Quaternion
  cylRadius :: real
  cylLength :: real

subsection \<open>The three.js operations called by BondMesh\<close>

text \<open>
  Modelled from the spec: the three.js library (\<^verbatim>\<open>THREE.Vector3\<close>, \<^verbatim>\<open>THREE.Quaternion\<close>) is
  a dependency and is not under src/. The spec asks of it ``a rotation mapping a fixed
  canonical axis onto the normalized bond direction'' and a lateral axis ``derived by
  applying the bond orientation to a fixed reference axis''. The definitions below follow
  the library's algorithms for the methods that \<^verbatim>\<open>BondMesh\<close> calls, over the reals:
  \<^verbatim>\<open>normalize\<close> divides a vector by \<^verbatim>\<open>length() || 1\<close>; \<^verbatim>\<open>setFromUnitVectors\<close> is the shortest
  rotation from \<open>vFrom\<close> to \<open>vTo\<close>, the normalized quaternion
  \<open>(vFrom \<times> vTo, 1 + vFrom \<cdot> vTo)\<close>, and a half-turn about an axis orthogonal to \<open>vFrom\<close>
  where \<open>vTo\<close> is opposite to \<open>vFrom\<close> and that quaternion vanishes;
  \<^verbatim>\<open>Quaternion.normalize\<close> returns the identity for the zero quaternion;
  \<^verbatim>\<open>applyQuaternion\<close> is \<open>v + q\<^sub>w t + q\<^sub>x\<^sub>y\<^sub>z \<times> t\<close> with \<open>t = 2 (q\<^sub>x\<^sub>y\<^sub>z \<times> v)\<close>. The library tests for
  the opposite direction up to a rounding tolerance (\<open>1 + vFrom \<cdot> vTo\<close> below
  \<^verbatim>\<open>Number.EPSILON\<close>); rounding being outside this model, the test here is exact.
\<close>

definition addVectors :: "Vector3 \<Rightarrow> Vector3 \<Rightarrow> Vector3" where
  "addVectors a b = \<lparr>vx = vx a + vx b, vy = vy a + vy b, vz = vz a + vz b\<rparr>"

definition subVectors :: "Vector3 \<Rightarrow> Vector3 \<Rightarrow> Vector3" where
  "subVectors a b = \<lparr>vx = vx a - vx b, vy = vy a - vy b, vz = vz a - vz b\<rparr>"

definition multiplyScalar :: "Vector3 \<Rightarrow> real \<Rightarrow> Vector3" where
  "multiplyScalar v s = \<lparr>vx = vx v * s, vy = vy v * s, vz = vz v * s\<rparr>"

definition divideScalar :: "Vector3 \<Rightarrow> real \<Rightarrow> Vector3" where
  "divideScalar v s = multiplyScalar v (1 / s)"

definition lengthV :: "Vector3 \<Rightarrow> real" where
  "lengthV v = sqrt (vx v * vx v + vy v * vy v + vz v * vz v)"

definition normalizeV :: "Vector3 \<Rightarrow> Vector3" where
  "normalizeV v = divideScalar v (if lengthV v = 0 then 1 else lengthV v)"

definition dot :: "Vector3 \<Rightarrow> Vector3 \<Rightarrow> real" where
  "dot a b = vx a * vx b + vy a * vy b + vz a * vz b"

definition lengthQ :: "Quaternion \<Rightarrow> real" where
  "lengthQ q = sqrt (qx q * qx q + qy q * qy q + qz q * qz q + qw q * qw q)"

definition normalizeQ :: "Quaternion \<Rightarrow> Quaternion" where
  "normalizeQ q =
     (let l = lengthQ q
      in if l = 0 then \<lparr>qx = 0, qy = 0, qz = 0, qw = 1\<rparr>
         else \<lparr>qx = qx q * (1 / l), qy = qy q * (1 / l), qz = qz q * (1 / l), qw = qw q * (1 / l)\<rparr>)"

definition setFromUnitVectors :: "Vector3 \<Rightarrow> Vector3 \<Rightarrow> Quaternion" where
  "setFromUnitVectors vFrom vTo =
     (let r = dot vFrom vTo + 1
      in if r \<le> 0 then
           (if \<bar>vx vFrom\<bar> > \<bar>vz vFrom\<bar>
            then normalizeQ \<lparr>qx = - vy vFrom, qy = vx vFrom, qz = 0, qw = 0\<rparr>
            else normalizeQ \<lparr>qx = 0, qy = - vz vFrom, qz = vy vFrom, qw = 0\<rparr>)
         else
           normalizeQ \<lparr>qx = vy vFrom * vz vTo - vz vFrom * vy vTo,
                       qy = vz vFrom * vx vTo - vx vFrom * vz vTo,
                       qz = vx vFrom * vy vTo - vy vFrom * vx vTo,
                       qw = r\<rparr>)"

definition applyQuaternion :: "Vector3 \<Rightarrow> Quaternion \<Rightarrow> Vector3" where
  "applyQuaternion v q =
     (let tx = 2 * (qy q * vz v - qz q * vy v);
          ty = 2 * (qz q * vx v - qx q * vz v);
          tz = 2 * (qx q * vy v - qy q * vx v)
      in \<lparr>vx = vx v + qw q * tx + qy q * tz - qz q * ty,
          vy = vy v + qw q * ty + qz q * tx - qx q * tz,
          vz = vz v + qw q * tz + qx q * ty - qy q * tx\<rparr>)"

subsection \<open>BondMesh\<close>

definition cylinder :: "string \<Rightarrow> Vector3 \<Rightarrow> Quaternion \<Rightarrow> real \<Rightarrow> real \<Rightarrow> Mesh" where
  "cylinder k p q radius len =
     \<lparr>key = k, position = p, quaternion = q, cylRadius = radius, cylLength = len\<rparr>"

definition BondMesh :: "Vector3 \<Rightarrow> Vector3 \<Rightarrow> int \<Rightarrow> Mesh list" where
  "BondMesh start endV ord =
     (let mid = multiplyScalar (addVectors start endV) (1 / 2);
          diff = subVectors endV start;
          len = lengthV diff;
          up = \<lparr>vx = 0, vy = 1, vz = 0\<rparr>;
          q = setFromUnitVectors up (normalizeV diff);
          radius = 2 / 25;
          offset = 3 / 20
      in if ord = 1 then [cylinder ''1'' mid q radius len]
         else if ord = 2 then
           (let localX = applyQuaternion \<lparr>vx = 1, vy = 0, vz = 0\<rparr> q;
                pos1 = addVectors mid (multiplyScalar localX offset);
                pos2 = addVectors mid (multiplyScalar localX (- offset))
            in [cylinder ''d1'' pos1 q radius len, cylinder ''d2'' pos2 q radius len])
         else
           (let localX = applyQuaternion \<lparr>vx = 1, vy = 0, vz = 0\<rparr> q;
                pos1 = addVectors mid (multiplyScalar localX offset);
                pos2 = addVectors mid (multiplyScalar localX (- offset))
            in [cylinder ''t1'' mid q radius len, cylinder ''t2'' pos1 q radius len,
                cylinder ''t3'' pos2 q radius len]))"

text \<open>The callback of \<^verbatim>\<open>data.bonds.map\<close> in \<^verbatim>\<open>Molecule3D\<close>: \<open>[]\<close> for \<^verbatim>\<open>null\<close>.\<close>

definition bondMeshes :: "Atom list \<Rightarrow> Bond \<Rightarrow> Mesh list" where
  "bondMeshes as bond =
     (case lookup as (source bond) of
        None \<Rightarrow> []
      | Some startAtom \<Rightarrow>
         (case lookup as (target bond) of
            None \<Rightarrow> []
          | Some endAtom \<Rightarrow>
             BondMesh \<lparr>vx = x3d startAtom, vy = y3d startAtom, vz = z3d startAtom\<rparr>
                      \<lparr>vx = x3d endAtom, vy = y3d endAtom, vz = z3d endAtom\<rparr>
                      (order bond)))"

section \<open>JavaScript numbers\<close>

text \<open>
  The definitions above compute with exact reals. A JavaScript number is an IEEE 754
  double: besides the finite values it has the two infinities and NaN, and an operation
  whose exact result is too large gives an infinity. The type \<open>jsnum\<close> adds these three
  values to the reals, and the two engines are written out a second time over it, line by
  line as above, for the statements about NaN and Infinity. A finite result is kept exact:
  the rounding of finite doubles is not modelled, and neither is the sign of zero (a zero
  divisor counts as \<open>+0\<close>). A result \<open>r\<close> with \<open>\<bar>r\<bar> \<ge> 2\<^sup>1\<^sup>0\<^sup>2\<^sup>4 - 2\<^sup>9\<^sup>7\<^sup>0\<close>, the bound from which
  rounding to nearest gives an infinity, becomes the infinity of its sign. The other
  equations are those of IEEE 754: \<open>\<infinity> - \<infinity>\<close>, \<open>0 \<cdot> \<infinity>\<close>, \<open>0 / 0\<close> and \<open>\<infinity> / \<infinity>\<close> are NaN, \<open>x / 0\<close> is
  an infinity for \<open>x \<noteq> 0\<close>, NaN propagates through the arithmetic, and every comparison
  with NaN is false. The coordinates of the input are finite numbers, lifted with \<open>Fin\<close>.
\<close>

datatype jsnum = Fin real | PosInfinity | NegInfinity | NaN

definition overflowThreshold :: real where
  "overflowThreshold = 2 ^ 1024 - 2 ^ 970"

definition fromReal :: "real \<Rightarrow> jsnum" where
  "fromReal r =
     (if overflowThreshold \<le> r then PosInfinity
      else if r \<le> - overflowThreshold then NegInfinity
      else Fin r)"


fun num_add :: "jsnum \<Rightarrow> jsnum \<Rightarrow> jsnum" where
  "num_add NaN b = NaN"
| "num_add a NaN = NaN"
| "num_add (Fin x) (Fin y) = fromReal (x + y)"
| "num_add PosInfinity NegInfinity = NaN"
| "num_add NegInfinity PosInfinity = NaN"
| "num_add PosInfinity b = PosInfinity"
| "num_add a PosInfinity = PosInfinity"
| "num_add NegInfinity b = NegInfinity"
| "num_add a NegInfinity = NegInfinity"


definition signedInfinity :: "bool \<Rightarrow> jsnum" where
  "signedInfinity positive = (if positive then PosInfinity else NegInfinity)"

fun num_mul :: "jsnum \<Rightarrow> jsnum \<Rightarrow> jsnum" where
  "num_mul NaN b = NaN"
| "num_mul a NaN = NaN"
| "num_mul (Fin x) (Fin y) = fromReal (x * y)"
| "num_mul (Fin x) PosInfinity = (if x = 0 then NaN else signedInfinity (0 < x))"
| "num_mul (Fin x) NegInfinity = (if x = 0 then NaN else signedInfinity (x < 0))"
| "num_mul PosInfinity (Fin y) = (if y = 0 then NaN else signedInfinity (0 < y))"
| "num_mul NegInfinity (Fin y) = (if y = 0 then NaN else signedInfinity (y < 0))"
| "num_mul PosInfinity PosInfinity = PosInfinity"
| "num_mul NegInfinity NegInfinity = PosInfinity"
| "num_mul PosInfinity NegInfinity = NegInfinity"
| "num_mul NegInfinity PosInfinity = NegInfinity"

fun num_div :: "jsnum \<Rightarrow> jsnum \<Rightarrow> jsnum" where
  "num_div NaN b = NaN"
| "num_div a NaN = NaN"
| "num_div (Fin x) (Fin y) =
     (if y = 0 then (if x = 0 then NaN else signedInfinity (0 < x)) else fromReal (x / y))"
| "num_div (Fin x) PosInfinity = Fin 0"
| "num_div (Fin x) NegInfinity = Fin 0"
| "num_div PosInfinity (Fin y) = signedInfinity (0 \<le> y)"
| "num_div NegInfinity (Fin y) = signedInfinity (y < 0)"
| "num_div PosInfinity b = NaN"
| "num_div NegInfinity b = NaN"

text \<open>\<^verbatim>\<open>Math.sqrt\<close>, and the comparison \<^verbatim>\<open><\<close> (\<^verbatim>\<open>a > b\<close> is \<^verbatim>\<open>b < a\<close>).\<close>

fun num_sqrt :: "jsnum \<Rightarrow> jsnum" where
  "num_sqrt (Fin x) = (if x < 0 then NaN else Fin (sqrt x))"
| "num_sqrt PosInfinity = PosInfinity"
| "num_sqrt NegInfinity = NaN"
| "num_sqrt NaN = NaN"







subsection \<open>The 2D layout and bond rendering over JavaScript numbers\<close>













subsection \<open>BondMesh over JavaScript numbers\<close>

text \<open>
  Modelled from the spec: the three.js operations, as in the section on the 3D bond
  geometry, with the arithmetic of JavaScript numbers; \<^verbatim>\<open>divideScalar(s)\<close> is
  \<^verbatim>\<open>multiplyScalar(1 / s)\<close>. \<open>jsBondMesh\<close> is \<^verbatim>\<open>BondMesh\<close> (\<^verbatim>\<open>Molecule3D.tsx\<close>, lines 55--113).
\<close>

record JsVector3 =
  jvx :: jsnum
  jvy :: jsnum
  jvz :: jsnum






definition jsMultiplyScalar :: "JsVector3 \<Rightarrow> jsnum \<Rightarrow> JsVector3" where
  "jsMultiplyScalar v s =
     \<lparr>jvx = num_mul (jvx v) s, jvy = num_mul (jvy v) s, jvz = num_mul (jvz v) s\<rparr>"

definition jsDivideScalar :: "JsVector3 \<Rightarrow> jsnum \<Rightarrow> JsVector3" where
  "jsDivideScalar v s = jsMultiplyScalar v (num_div (Fin 1) s)"

definition jsLengthV :: "JsVector3 \<Rightarrow> jsnum" where
  "jsLengthV v =
     num_sqrt (num_add (num_add (num_mul (jvx v) (jvx v)) (num_mul (jvy v) (jvy v)))
                       (num_mul (jvz v) (jvz v)))"









section \<open>Measures and example data used in the statements\<close>

text \<open>
  The mean raw bond length in the spec's words: the bonds both of whose indices resolve,
  the Euclidean distance of the raw 2D positions of each, their mean, and 1 when there is
  none.
\<close>

definition resolves :: "'a Atom_scheme list \<Rightarrow> Bond \<Rightarrow> bool" where
  "resolves as b = (lookup as (source b) \<noteq> None \<and> lookup as (target b) \<noteq> None)"

definition rawBondLength :: "'a Atom_scheme list \<Rightarrow> Bond \<Rightarrow> real" where
  "rawBondLength as b =
     (case lookup as (source b) of
        None \<Rightarrow> 0
      | Some s \<Rightarrow>
         (case lookup as (target b) of
            None \<Rightarrow> 0
          | Some t \<Rightarrow> sqrt ((x2d s - x2d t)\<^sup>2 + (y2d s - y2d t)\<^sup>2)))"

definition meanRawBondLength :: "MoleculeData \<Rightarrow> real" where
  "meanRawBondLength data =
     (let rs = filter (resolves (atoms data)) (bonds data)
      in if rs = [] then 1
         else sum_list (map (rawBondLength (atoms data)) rs) / real (length rs))"

text \<open>An atom given by its 2D data only, for the examples.\<close>

definition atom2d :: "int \<Rightarrow> string \<Rightarrow> real \<Rightarrow> real \<Rightarrow> Atom" where
  "atom2d i e x y =
     \<lparr>ident = i, element = e, x2d = x, y2d = y, x3d = 0, y3d = 0, z3d = 0,
      lonePairs = 0, charge = 0\<rparr>"

text \<open>Two atoms 5 apart, a double bond between them and a bond to a missing atom.\<close>

definition exampleCO :: MoleculeData where
  "exampleCO =
     \<lparr>atoms = [atom2d 0 ''C'' 0 0, atom2d 1 ''O'' 3 4],
      bonds = [\<lparr>source = 0, target = 1, order = 2\<rparr>, \<lparr>source = 0, target = 5, order = 1\<rparr>]\<rparr>"

text \<open>
  The distance of two normalized atoms, the unit normal of the bond between them, its
  centre segment and the translation of a segment by \<open>k\<close> times a vector.
\<close>

definition dist2d :: "ScaledAtom \<Rightarrow> ScaledAtom \<Rightarrow> real" where
  "dist2d s e = sqrt ((pos_x e - pos_x s)\<^sup>2 + (pos_y e - pos_y s)\<^sup>2)"

definition unitNormal :: "ScaledAtom \<Rightarrow> ScaledAtom \<Rightarrow> real \<times> real" where
  "unitNormal s e = (- (pos_y e - pos_y s) / dist2d s e, (pos_x e - pos_x s) / dist2d s e)"

definition centreLine :: "ScaledAtom \<Rightarrow> ScaledAtom \<Rightarrow> svgLine" where
  "centreLine s e = Line (pos_x s) (pos_y s) (pos_x e) (pos_y e)"

fun shiftLine :: "real \<Rightarrow> real \<times> real \<Rightarrow> svgLine \<Rightarrow> svgLine" where
  "shiftLine k (nx, ny) (Line x1 y1 x2 y2) =
     Line (x1 + nx * k) (y1 + ny * k) (x2 + nx * k) (y2 + ny * k)"

text \<open>
  Three atoms on a line with bonds of raw lengths 1/2 and 239/2: the mean is 60 and the scale
  is 1, so the triple bond between the first two atoms is 1/2 long after normalization.
\<close>

definition exampleClose :: MoleculeData where
  "exampleClose =
     \<lparr>atoms = [atom2d 0 ''C'' 0 0, atom2d 1 ''C'' (1 / 2) 0, atom2d 2 ''H'' (- (239 / 2)) 0],
      bonds = [\<lparr>source = 0, target = 1, order = 3\<rparr>, \<lparr>source = 0, target = 2, order = 1\<rparr>]\<rparr>"

text \<open>
  The mean rendered bond length in the spec's words: the mean, over the bonds whose indices
  resolve, of the distance between the normalized positions of their atoms.
\<close>

definition normalizedBondLength :: "ScaledAtom list \<Rightarrow> Bond \<Rightarrow> real" where
  "normalizedBondLength nas b =
     (case lookup nas (source b) of
        None \<Rightarrow> 0
      | Some s \<Rightarrow> (case lookup nas (target b) of None \<Rightarrow> 0 | Some e \<Rightarrow> dist2d s e))"

definition meanNormalizedBondLength :: "MoleculeData \<Rightarrow> real" where
  "meanNormalizedBondLength data =
     (let nas = normalizedAtoms (layout data);
          rs = filter (resolves nas) (layoutBonds (layout data))
      in sum_list (map (normalizedBondLength nas) rs) / real (length rs))"

text \<open>Two atoms 0.0005 apart and the bond between them.\<close>

definition exampleTiny :: MoleculeData where
  "exampleTiny =
     \<lparr>atoms = [atom2d 0 ''H'' 0 0, atom2d 1 ''H'' (1 / 2000) 0],
      bonds = [\<lparr>source = 0, target = 1, order = 1\<rparr>]\<rparr>"

text \<open>A vector by its coordinates, and the canonical axis of BondMesh.\<close>

definition vec :: "real \<Rightarrow> real \<Rightarrow> real \<Rightarrow> Vector3" where
  "vec x y z = \<lparr>vx = x, vy = y, vz = z\<rparr>"

definition up :: Vector3 where
  "up = vec 0 1 0"


text \<open>
  An oxygen with one lone pair and charge -1 bonded to a hydrogen 5 away.
\<close>

definition exampleHydroxide :: MoleculeData where
  "exampleHydroxide =
     \<lparr>atoms = [(atom2d 0 ''O'' 0 0)\<lparr>lonePairs := 1, charge := - 1\<rparr>, atom2d 1 ''H'' 3 4],
      bonds = [\<lparr>source = 0, target = 1, order = 1\<rparr>]\<rparr>"







text \<open>
  The quantities of one bond that the statements speak about: its midpoint, its normalized
  direction, the orientation BondMesh computes for it, and the lateral axis (the image of
  the x axis under that orientation).
\<close>

definition midpoint :: "Vector3 \<Rightarrow> Vector3 \<Rightarrow> Vector3" where
  "midpoint s e = multiplyScalar (addVectors s e) (1 / 2)"

definition direction :: "Vector3 \<Rightarrow> Vector3 \<Rightarrow> Vector3" where
  "direction s e = normalizeV (subVectors e s)"

definition orientation :: "Vector3 \<Rightarrow> Vector3 \<Rightarrow> Quaternion" where
  "orientation s e = setFromUnitVectors up (direction s e)"

definition lateral :: "Vector3 \<Rightarrow> Vector3 \<Rightarrow> Vector3" where
  "lateral s e = applyQuaternion (vec 1 0 0) (orientation s e)"

text \<open>
  The point reflection through \<open>m\<close>, and the half-turn about the line through \<open>m\<close> with the
  unit direction \<open>d\<close>: the two symmetries of a bond about its midpoint and about its axis.
\<close>

definition reflectPoint :: "Vector3 \<Rightarrow> Vector3 \<Rightarrow> Vector3" where
  "reflectPoint m p = subVectors (multiplyScalar m 2) p"

definition halfTurn :: "Vector3 \<Rightarrow> Vector3 \<Rightarrow> Vector3 \<Rightarrow> Vector3" where
  "halfTurn m d p =
     addVectors m (subVectors (multiplyScalar d (2 * dot (subVectors p m) d)) (subVectors p m))"

text \<open>
  The half-turn about the z axis: the orientation of a bond that points straight down.
\<close>

definition halfTurnZ :: Quaternion where
  "halfTurnZ = \<lparr>qx = 0, qy = 0, qz = 1, qw = 0\<rparr>"

text \<open>
  An example bond in space: from the origin to a point 25 away.
\<close>

definition origin3 :: Vector3 where
  "origin3 = vec 0 0 0"

definition exampleEnd :: Vector3 where
  "exampleEnd = vec 24 7 0"



definition jsVec :: "real \<Rightarrow> real \<Rightarrow> real \<Rightarrow> JsVector3" where
  "jsVec x y z = \<lparr>jvx = Fin x, jvy = Fin y, jvz = Fin z\<rparr>"



section \<open>Auxiliary lemmas\<close>

lemma bondPass_resolves:
  "resolves as b \<Longrightarrow> bondPass as (t, c) b = (t + rawBondLength as b, Suc c)"
  by (auto simp: resolves_def bondPass_def rawBondLength_def Let_def power2_eq_square)

lemma bondPass_skips:
  "\<not> resolves as b \<Longrightarrow> bondPass as acc b = acc"
  by (auto simp: resolves_def bondPass_def split: option.splits)

lemma foldl_bondPass:
  "foldl (bondPass as) (t, c) bs =
     (t + sum_list (map (rawBondLength as) (filter (resolves as) bs)),
      c + length (filter (resolves as) bs))"
proof (induction bs arbitrary: t c)
  case Nil
  show ?case by simp
next
  case (Cons b bs)
  show ?case
  proof (cases "resolves as b")
    case True
    then show ?thesis by (simp add: bondPass_resolves Cons.IH)
  next
    case False
    then show ?thesis by (simp add: bondPass_skips Cons.IH)
  qed
qed

lemma avgLen_mean: "avgLen data = meanRawBondLength data"
  by (simp add: avgLen_def meanRawBondLength_def foldl_bondPass Let_def)

lemma layout_atoms: "normalizedAtoms (layout data) = map (scaleAtom (scale data)) (atoms data)"
  by (simp add: layout_def Let_def split: list.splits)

lemma layout_bonds: "atoms data \<noteq> [] \<Longrightarrow> layoutBonds (layout data) = bonds data"
  by (simp add: layout_def Let_def split: list.splits)

lemma scaleAtom_simps:
  "pos_x (scaleAtom s a) = x2d a * s"
  "pos_y (scaleAtom s a) = y2d a * s"
  "Atom.truncate (scaleAtom s a) = a"
  "element (scaleAtom s a) = element a"
  "lonePairs (scaleAtom s a) = lonePairs a"
  "charge (scaleAtom s a) = charge a"
  by (simp_all add: scaleAtom_def Atom.defs ScaledAtom.defs)

lemma sqrt_25: "sqrt 25 = 5"
  by (rule real_sqrt_unique) simp_all

lemma mean_exampleCO: "meanRawBondLength exampleCO = 5"
  by (simp add: exampleCO_def meanRawBondLength_def resolves_def lookup_def
      rawBondLength_def atom2d_def sqrt_25)

lemma dist2d_alt:
  "sqrt ((pos_x e - pos_x s) * (pos_x e - pos_x s) + (pos_y e - pos_y s) * (pos_y e - pos_y s))
     = dist2d s e"
  by (simp add: dist2d_def power2_eq_square)

lemma bondLines_resolved:
  assumes "lookup nas (source b) = Some s" and "lookup nas (target b) = Some e"
    and "unitNormal s e = (n1, n2)"
  shows "bondLines nas b =
     (if dist2d s e < 1 then []
      else if order b = 1 then [centreLine s e]
      else if order b = 2 then
        [shiftLine 3 (n1, n2) (centreLine s e), shiftLine (- 3) (n1, n2) (centreLine s e)]
      else if order b = 3 then
        [centreLine s e, shiftLine (15 / 2) (n1, n2) (centreLine s e),
         shiftLine (- (15 / 2)) (n1, n2) (centreLine s e)]
      else [])"
proof -
  have n1: "- (pos_y e - pos_y s) / dist2d s e = n1"
    and n2: "(pos_x e - pos_x s) / dist2d s e = n2"
    using assms(3) by (simp_all add: unitNormal_def)
  show ?thesis
    unfolding bondLines_def assms(1,2) option.case Let_def dist2d_alt n1 n2 centreLine_def
    by simp
qed

lemma bondLines_short:
  assumes "lookup nas (source b) = Some s" and "lookup nas (target b) = Some e"
    and "dist2d s e < 1"
  shows "bondLines nas b = []"
  using bondLines_resolved [OF assms(1,2) surjective_pairing] assms(3) by simp

lemma bondLines_long:
  assumes "lookup nas (source b) = Some s" and "lookup nas (target b) = Some e"
    and "1 \<le> dist2d s e"
  shows "bondLines nas b =
     (if order b = 1 then [centreLine s e]
      else if order b = 2 then
        [shiftLine 3 (unitNormal s e) (centreLine s e),
         shiftLine (- 3) (unitNormal s e) (centreLine s e)]
      else if order b = 3 then
        [centreLine s e, shiftLine (15 / 2) (unitNormal s e) (centreLine s e),
         shiftLine (- (15 / 2)) (unitNormal s e) (centreLine s e)]
      else [])"
  using bondLines_resolved [OF assms(1,2) surjective_pairing] assms(3) by simp

lemma unitNormal_unit:
  assumes "0 < dist2d s e"
  shows "(fst (unitNormal s e))\<^sup>2 + (snd (unitNormal s e))\<^sup>2 = 1"
proof -
  let ?dx = "pos_x e - pos_x s" and ?dy = "pos_y e - pos_y s"
  have sq: "?dy\<^sup>2 + ?dx\<^sup>2 = (dist2d s e)\<^sup>2"
    by (simp add: dist2d_def)
  have "(fst (unitNormal s e))\<^sup>2 + (snd (unitNormal s e))\<^sup>2 = (?dy\<^sup>2 + ?dx\<^sup>2) / (dist2d s e)\<^sup>2"
    by (simp add: unitNormal_def power_divide add_divide_distrib power2_commute [of "pos_y s"])
  also have "\<dots> = (dist2d s e)\<^sup>2 / (dist2d s e)\<^sup>2"
    by (simp only: sq)
  also have "\<dots> = 1"
    using assms by simp
  finally show ?thesis .
qed

lemma unitNormal_perp:
  "fst (unitNormal s e) * (pos_x e - pos_x s) + snd (unitNormal s e) * (pos_y e - pos_y s) = 0"
proof -
  have "(- (pos_y e - pos_y s)) * (pos_x e - pos_x s) + (pos_x e - pos_x s) * (pos_y e - pos_y s) = 0"
    by (simp add: algebra_simps)
  then have "((- (pos_y e - pos_y s)) * (pos_x e - pos_x s) + (pos_x e - pos_x s) * (pos_y e - pos_y s)) / dist2d s e = 0"
    by simp
  then show ?thesis
    unfolding unitNormal_def fst_conv snd_conv add_divide_distrib times_divide_eq_left .
qed

lemma mean_exampleClose: "meanRawBondLength exampleClose = 60"
  by (simp add: exampleClose_def meanRawBondLength_def resolves_def lookup_def
      rawBondLength_def atom2d_def)

lemma scale_exampleClose: "scale exampleClose = 1"
  by (simp add: scale_def avgLen_mean mean_exampleClose TARGET_BOND_LENGTH_def)

lemma scale_exampleCO: "scale exampleCO = 12"
  by (simp add: scale_def avgLen_mean mean_exampleCO TARGET_BOND_LENGTH_def)

lemma atoms_exampleClose:
  "normalizedAtoms (layout exampleClose) =
     [scaleAtom 1 (atom2d 0 ''C'' 0 0), scaleAtom 1 (atom2d 1 ''C'' (1 / 2) 0),
      scaleAtom 1 (atom2d 2 ''H'' (- (239 / 2)) 0)]"
  by (simp add: layout_atoms scale_exampleClose) (simp add: exampleClose_def)

lemma atoms_exampleCO:
  "normalizedAtoms (layout exampleCO) =
     [scaleAtom 12 (atom2d 0 ''C'' 0 0), scaleAtom 12 (atom2d 1 ''O'' 3 4)]"
  by (simp add: layout_atoms scale_exampleCO) (simp add: exampleCO_def)

lemma sqrt_3600: "sqrt 3600 = 60"
  by (rule real_sqrt_unique) simp_all

lemma lookup_map: "lookup (map f xs) i = map_option f (lookup xs i)"
  by (auto simp: lookup_def)

lemma resolves_map: "resolves (map (scaleAtom sc) as) b = resolves as b"
  by (simp add: resolves_def lookup_map)

lemma dist2d_scaleAtom: "dist2d (scaleAtom sc s) (scaleAtom sc t) = \<bar>sc\<bar> * sqrt ((x2d s - x2d t)\<^sup>2 + (y2d s - y2d t)\<^sup>2)"
proof -
  have "(x2d t * sc - x2d s * sc)\<^sup>2 + (y2d t * sc - y2d s * sc)\<^sup>2
      = sc\<^sup>2 * ((x2d s - x2d t)\<^sup>2 + (y2d s - y2d t)\<^sup>2)"
    by (simp add: power2_eq_square algebra_simps)
  then show ?thesis
    by (simp add: dist2d_def scaleAtom_simps real_sqrt_mult)
qed

lemma normalizedBondLength_scaled:
  "normalizedBondLength (map (scaleAtom sc) as) = (\<lambda>b. \<bar>sc\<bar> * rawBondLength as b)"
  by (rule ext)
    (simp add: normalizedBondLength_def rawBondLength_def lookup_map dist2d_scaleAtom
      split: option.splits)

lemma sum_list_scaled: "sum_list (map (\<lambda>b. c * f b) bs) = c * sum_list (map f bs)" for c :: real
  by (induction bs) (simp_all add: algebra_simps)

lemma meanNormalized_scaled:
  assumes "atoms data \<noteq> []"
  shows "meanNormalizedBondLength data =
     \<bar>scale data\<bar> * (sum_list (map (rawBondLength (atoms data)) (filter (resolves (atoms data)) (bonds data)))
        / real (length (filter (resolves (atoms data)) (bonds data))))"
  by (simp add: meanNormalizedBondLength_def layout_atoms layout_bonds [OF assms] resolves_map
      normalizedBondLength_scaled sum_list_scaled cong: filter_cong)

lemma resolves_atoms: "resolves as b \<Longrightarrow> as \<noteq> []"
  by (auto simp: resolves_def lookup_def split: if_splits)

lemma mean_exampleTiny: "meanRawBondLength exampleTiny = 1 / 2000"
  by (simp add: exampleTiny_def meanRawBondLength_def resolves_def lookup_def
      rawBondLength_def atom2d_def)

lemma scale_exampleTiny: "scale exampleTiny = 60"
  by (simp add: scale_def avgLen_mean mean_exampleTiny)

lemma BondMesh_other:
  "ord \<noteq> 1 \<Longrightarrow> ord \<noteq> 2 \<Longrightarrow> BondMesh s e ord = BondMesh s e 3"
  by (simp add: BondMesh_def)

lemma length_BondMesh:
  "length (BondMesh s e ord) = (if ord = 1 then 1 else if ord = 2 then 2 else 3)"
  by (simp add: BondMesh_def Let_def)

lemma bondLines_other:
  "order b \<noteq> 1 \<Longrightarrow> order b \<noteq> 2 \<Longrightarrow> order b \<noteq> 3 \<Longrightarrow> bondLines nas b = []"
  by (simp add: bondLines_def Let_def split: option.splits)

lemma bboxStep_tuple:
  "bboxStep (mn, mx, my, My) a =
     (min mn (pos_x a), max mx (pos_x a), min my (pos_y a), max My (pos_y a))"
  by (simp add: bboxStep_def)

lemma foldl_bbox:
  assumes "foldl bboxStep (mn, mx, my, My) xs = (mn', mx', my', My')"
  shows "mn' \<le> mn \<and> mx \<le> mx' \<and> my' \<le> my \<and> My \<le> My'
       \<and> (\<forall>a\<in>set xs. mn' \<le> pos_x a \<and> pos_x a \<le> mx' \<and> my' \<le> pos_y a \<and> pos_y a \<le> My')"
  using assms
proof (induction xs arbitrary: mn mx my My)
  case Nil
  then show ?case by simp
next
  case (Cons a xs)
  from Cons.prems
  have "foldl bboxStep (min mn (pos_x a), max mx (pos_x a), min my (pos_y a), max My (pos_y a)) xs
          = (mn', mx', my', My')"
    by (simp add: bboxStep_tuple)
  from Cons.IH [OF this] show ?case
    by auto
qed

lemma bbox_contains:
  assumes "foldl bboxStep (bboxInit a0) as = (mn, mx, my, My)" and "a \<in> set (a0 # as)"
  shows "mn \<le> pos_x a \<and> pos_x a \<le> mx \<and> my \<le> pos_y a \<and> pos_y a \<le> My"
  using foldl_bbox [OF assms(1) [unfolded bboxInit_def]] assms(2) by auto

lemma layout_viewBox:
  assumes "atoms data \<noteq> []"
  shows "\<exists>mn mx my My.
      viewBox (layout data) = frame (mn, mx, my, My)
    \<and> (\<forall>a\<in>set (normalizedAtoms (layout data)).
         mn \<le> pos_x a \<and> pos_x a \<le> mx \<and> my \<le> pos_y a \<and> pos_y a \<le> My)"
proof -
  obtain a0 as where at: "atoms data = a0 # as"
    using assms by (cases "atoms data") auto
  let ?s0 = "scaleAtom (scale data) a0" and ?ss = "map (scaleAtom (scale data)) as"
  obtain mn mx my My where bb: "foldl bboxStep (bboxInit ?s0) ?ss = (mn, mx, my, My)"
    by (metis prod_cases4)
  have v: "viewBox (layout data) = frame (mn, mx, my, My)"
    by (simp add: layout_def at Let_def bb)
  have n: "normalizedAtoms (layout data) = ?s0 # ?ss"
    by (simp add: layout_atoms at)
  show ?thesis
    using v bbox_contains [OF bb] unfolding n by blast
qed

lemma frame_inset:
  assumes "viewBox (layout data) = frame (mn, mx, my, My)"
    and "mn \<le> X" and "X \<le> mx" and "my \<le> Y" and "Y \<le> My"
  shows "boxX (viewBox (layout data)) + PADDING \<le> X
       \<and> X \<le> boxX (viewBox (layout data)) + boxW (viewBox (layout data)) - PADDING
       \<and> boxY (viewBox (layout data)) + PADDING \<le> Y
       \<and> Y \<le> boxY (viewBox (layout data)) + boxH (viewBox (layout data)) - PADDING"
  using assms(2-) by (simp add: assms(1) frame_def)

lemma circles_pairMarker:
  assumes "(cx, cy, ext) \<in> set (circles (pairMarker k i))"
  shows "- (17 / 2) \<le> cx \<and> cx \<le> 17 / 2 \<and> - (17 / 2) \<le> cy \<and> cy \<le> 17 / 2 \<and> ext = 9 / 5"
proof -
  define t where "t = (real i * 2 * pi / real_of_int (max k 1) - pi / 2) * 180 / pi * pi / 180"
  define C S where "C = cos t" and "S = sin t"
  have b: "- 1 \<le> C" "C \<le> 1" "- 1 \<le> S" "S \<le> 1"
    by (simp_all add: C_def S_def)
  from assms have "(cx = - (5 / 2) * C + 6 * S \<and> cy = - (5 / 2) * S - 6 * C
      \<or> cx = (5 / 2) * C + 6 * S \<and> cy = (5 / 2) * S - 6 * C) \<and> ext = 9 / 5"
    unfolding pairMarker_def Let_def t_def C_def S_def
    by (auto simp: applyTransforms_def)
  with b show ?thesis
    by (auto simp: abs_le_iff field_simps)
qed

lemma atomRadius_cases: "atomRadius a = 10 \<or> atomRadius a = 14"
  by (simp add: atomRadius_def)

lemma circles_lonePairGroup:
  assumes "g \<in> set (lonePairGroup sl a)" and "(cx, cy, ext) \<in> set (circles g)"
  shows "cx + ext \<le> 283 / 10 \<and> - cx + ext \<le> 283 / 10
       \<and> cy + ext \<le> 283 / 10 \<and> - cy + ext \<le> 283 / 10 \<and> 0 \<le> ext"
proof -
  from assms obtain m x y where m: "m \<in> set (lonePairMarkers a)"
    and xy: "(x, y, ext) \<in> set (circles m)"
    and c: "cx = x" "cy = y - (atomRadius a + 4)"
    by (auto simp: lonePairGroup_def applyTransforms_def split: if_splits)
  from m obtain i where "m = pairMarker (lonePairs a) i"
    by (auto simp: lonePairMarkers_def)
  with xy circles_pairMarker
  have "- (17 / 2) \<le> x \<and> x \<le> 17 / 2 \<and> - (17 / 2) \<le> y \<and> y \<le> 17 / 2 \<and> ext = 9 / 5"
    by blast
  with c atomRadius_cases [of a] show ?thesis
    by auto
qed

lemma circles_chargeGroup:
  assumes "g \<in> set (chargeGroup sc a)" and "(cx, cy, ext) \<in> set (circles g)"
  shows "cx + ext \<le> 283 / 10 \<and> - cx + ext \<le> 283 / 10
       \<and> cy + ext \<le> 283 / 10 \<and> - cy + ext \<le> 283 / 10 \<and> 0 \<le> ext"
  using assms atomRadius_cases [of a]
  by (auto simp: chargeGroup_def applyTransforms_def split: if_splits)

lemma circles_translated:
  "set (circles (Group [Translate X Y] cs)) =
     (\<lambda>(x, y, e). (x + X, y + Y, e)) ` (\<Union>g\<in>set cs. set (circles g))"
  by (auto simp: applyTransforms_def image_iff)

lemma circles_atomGroup:
  assumes "(cx, cy, ext) \<in> set (circles (atomGroup sl sc a))"
  shows "cx - pos_x a + ext \<le> 283 / 10 \<and> pos_x a - cx + ext \<le> 283 / 10
       \<and> cy - pos_y a + ext \<le> 283 / 10 \<and> pos_y a - cy + ext \<le> 283 / 10 \<and> 0 \<le> ext"
proof -
  define cs where "cs = [Circle 0 0 (atomRadius a) 2, Text (element a)]
        @ lonePairGroup sl a @ chargeGroup sc a"
  have "atomGroup sl sc a = Group [Translate (pos_x a) (pos_y a)] cs"
    by (simp add: atomGroup_def cs_def)
  with assms have "(cx, cy, ext) \<in> (\<lambda>(x, y, e). (x + pos_x a, y + pos_y a, e)) ` (\<Union>g\<in>set cs. set (circles g))"
    by (simp only: circles_translated)
  then obtain g x y where g: "g \<in> set cs"
    and xy: "(x, y, ext) \<in> set (circles g)"
    and c: "cx = x + pos_x a" "cy = y + pos_y a"
    by auto
  have "x + ext \<le> 283 / 10 \<and> - x + ext \<le> 283 / 10
       \<and> y + ext \<le> 283 / 10 \<and> - y + ext \<le> 283 / 10 \<and> 0 \<le> ext"
  proof -
    consider "g = Circle 0 0 (atomRadius a) 2" | "g = Text (element a)"
      | "g \<in> set (lonePairGroup sl a)" | "g \<in> set (chargeGroup sc a)"
      using g by (auto simp: cs_def)
    then show ?thesis
    proof cases
      case 1
      with xy atomRadius_cases [of a] show ?thesis by auto
    next
      case 2
      with xy show ?thesis by simp
    next
      case 3
      then show ?thesis using xy by (rule circles_lonePairGroup)
    next
      case 4
      then show ?thesis using xy by (rule circles_chargeGroup)
    qed
  qed
  with c show ?thesis by simp
qed

lemma mean_exampleHydroxide: "meanRawBondLength exampleHydroxide = 5"
  by (simp add: exampleHydroxide_def meanRawBondLength_def resolves_def lookup_def
      rawBondLength_def atom2d_def sqrt_25)

lemma scale_exampleHydroxide: "scale exampleHydroxide = 12"
  by (simp add: scale_def avgLen_mean mean_exampleHydroxide TARGET_BOND_LENGTH_def)

lemma atoms_exampleHydroxide:
  "normalizedAtoms (layout exampleHydroxide) =
     [scaleAtom 12 ((atom2d 0 ''O'' 0 0)\<lparr>lonePairs := 1, charge := - 1\<rparr>),
      scaleAtom 12 (atom2d 1 ''H'' 3 4)]"
  by (simp add: layout_atoms scale_exampleHydroxide) (simp add: exampleHydroxide_def)

lemma layout_viewBox_eq:
  assumes "atoms data = a # as"
  shows "viewBox (layout data) =
     frame (foldl bboxStep (bboxInit (scaleAtom (scale data) a)) (map (scaleAtom (scale data)) as))"
  by (simp add: layout_def assms Let_def)

lemma viewBox_exampleHydroxide:
  "viewBox (layout exampleHydroxide) = \<lparr>boxX = - 40, boxY = - 40, boxW = 116, boxH = 128\<rparr>"
proof -
  have "atoms exampleHydroxide =
      (atom2d 0 ''O'' 0 0)\<lparr>lonePairs := 1, charge := - 1\<rparr> # [atom2d 1 ''H'' 3 4]"
    by (simp add: exampleHydroxide_def)
  from layout_viewBox_eq [OF this] show ?thesis
    by (simp add: scale_exampleHydroxide bboxInit_def bboxStep_def frame_def PADDING_def
        scaleAtom_simps atom2d_def)
qed

lemma circles_exampleHydroxide:
  "circles (atomGroup True True (scaleAtom 12 ((atom2d 0 ''O'' 0 0)\<lparr>lonePairs := 1, charge := - 1\<rparr>))) =
     [(0, 0, 15), (- 6, - (31 / 2), 9 / 5), (- 6, - (41 / 2), 9 / 5), (10, - 10, 13 / 2)]"
  by (simp add: atomGroup_def lonePairGroup_def chargeGroup_def lonePairMarkers_def
      pairMarker_def atomRadius_def isHydrogen_def scaleAtom_simps atom2d_def applyTransforms_def)








lemma lengthQ_up:
  assumes "dot d d = 1"
  shows "lengthQ \<lparr>qx = vz d, qy = 0, qz = - vx d, qw = vy d + 1\<rparr> = sqrt (2 * (1 + vy d))"
proof -
  have "vx d * vx d + vy d * vy d + vz d * vz d = 1"
    using assms by (simp add: dot_def)
  then have "vz d * vz d + vx d * vx d + (vy d + 1) * (vy d + 1) = 2 * (1 + vy d)"
    by (simp add: algebra_simps)
  then show ?thesis
    by (simp add: lengthQ_def)
qed

lemma setFromUnitVectors_up:
  assumes "dot d d = 1" and "0 < 1 + vy d"
  shows "setFromUnitVectors \<lparr>vx = 0, vy = 1, vz = 0\<rparr> d =
     \<lparr>qx = vz d * (1 / sqrt (2 * (1 + vy d))), qy = 0,
      qz = - vx d * (1 / sqrt (2 * (1 + vy d))),
      qw = (vy d + 1) * (1 / sqrt (2 * (1 + vy d)))\<rparr>"
proof -
  have nz: "sqrt (2 * (1 + vy d)) \<noteq> 0"
    using assms(2) by simp
  have r: "\<not> vy d + 1 \<le> 0"
    using assms(2) by simp
  show ?thesis
    using nz r by (simp add: setFromUnitVectors_def dot_def normalizeQ_def Let_def lengthQ_up [OF assms(1)])
qed

lemma rotation_up:
  assumes "dot d d = 1" and "0 < 1 + vy d"
  shows "applyQuaternion \<lparr>vx = 0, vy = 1, vz = 0\<rparr> (setFromUnitVectors \<lparr>vx = 0, vy = 1, vz = 0\<rparr> d) = d"
    and "dot (applyQuaternion \<lparr>vx = 1, vy = 0, vz = 0\<rparr> (setFromUnitVectors \<lparr>vx = 0, vy = 1, vz = 0\<rparr> d)) d = 0"
proof -
  define k where "k = 1 / sqrt (2 * (1 + vy d))"
  have kk: "k * k * (2 * (1 + vy d)) = 1"
    using assms(2) by (simp add: k_def)
  have u: "vx d * vx d + vy d * vy d + vz d * vz d = 1"
    using assms(1) by (simp add: dot_def)
  have q: "setFromUnitVectors \<lparr>vx = 0, vy = 1, vz = 0\<rparr> d =
     \<lparr>qx = vz d * k, qy = 0, qz = - vx d * k, qw = (vy d + 1) * k\<rparr>"
    unfolding k_def by (rule setFromUnitVectors_up [OF assms])
  have x: "(vy d + 1) * k * (2 * (vx d * k)) = vx d"
    using kk by algebra
  have z: "(vy d + 1) * k * (2 * (vz d * k)) = vz d"
    using kk by algebra
  have y: "1 - vx d * k * (2 * (vx d * k)) - vz d * k * (2 * (vz d * k)) = vy d"
    using kk u by algebra
  show "applyQuaternion \<lparr>vx = 0, vy = 1, vz = 0\<rparr> (setFromUnitVectors \<lparr>vx = 0, vy = 1, vz = 0\<rparr> d) = d"
    unfolding q using x y z by (simp add: applyQuaternion_def)
  have p: "(1 - vx d * k * (2 * (vx d * k))) * vx d + (vy d + 1) * k * (2 * (- vx d * k)) * vy d
            + vz d * k * (2 * (- vx d * k)) * vz d = 0"
    using kk u by algebra
  show "dot (applyQuaternion \<lparr>vx = 1, vy = 0, vz = 0\<rparr> (setFromUnitVectors \<lparr>vx = 0, vy = 1, vz = 0\<rparr> d)) d = 0"
    unfolding q using p by (simp add: applyQuaternion_def dot_def)
qed

lemma setFromUnitVectors_down:
  assumes "1 + vy d \<le> 0"
  shows "setFromUnitVectors \<lparr>vx = 0, vy = 1, vz = 0\<rparr> d = halfTurnZ"
  using assms
  by (simp add: setFromUnitVectors_def dot_def normalizeQ_def lengthQ_def Let_def halfTurnZ_def
      add.commute)

lemma applyQuaternion_halfTurnZ:
  "applyQuaternion v halfTurnZ = \<lparr>vx = - vx v, vy = - vy v, vz = vz v\<rparr>"
  by (simp add: applyQuaternion_def halfTurnZ_def)

lemma lengthV_pos:
  assumes "s \<noteq> e"
  shows "0 < lengthV (subVectors e s)"
proof -
  have "vx e - vx s \<noteq> 0 \<or> vy e - vy s \<noteq> 0 \<or> vz e - vz s \<noteq> 0"
    using assms by (cases s, cases e) auto
  then have "0 < (vx e - vx s) * (vx e - vx s) \<or> 0 < (vy e - vy s) * (vy e - vy s)
      \<or> 0 < (vz e - vz s) * (vz e - vz s)"
    by (simp add: zero_less_mult_iff) linarith
  moreover have "0 \<le> (vx e - vx s) * (vx e - vx s)" "0 \<le> (vy e - vy s) * (vy e - vy s)"
    "0 \<le> (vz e - vz s) * (vz e - vz s)"
    by simp_all
  ultimately have "0 < (vx e - vx s) * (vx e - vx s) + (vy e - vy s) * (vy e - vy s)
      + (vz e - vz s) * (vz e - vz s)"
    by linarith
  then show ?thesis
    by (simp add: lengthV_def subVectors_def)
qed

lemma direction_unit:
  assumes "s \<noteq> e"
  shows "dot (direction s e) (direction s e) = 1"
proof -
  let ?v = "subVectors e s"
  have pos: "0 < lengthV ?v"
    by (rule lengthV_pos [OF assms])
  have sq: "lengthV ?v * lengthV ?v = vx ?v * vx ?v + vy ?v * vy ?v + vz ?v * vz ?v"
    unfolding lengthV_def by (simp add: add_nonneg_nonneg)
  have "dot (direction s e) (direction s e)
      = (vx ?v * vx ?v + vy ?v * vy ?v + vz ?v * vz ?v) / (lengthV ?v * lengthV ?v)"
    using pos
    by (simp add: direction_def normalizeV_def divideScalar_def multiplyScalar_def dot_def
        add_divide_distrib)
  also have "\<dots> = 1"
    using pos by (simp add: sq [symmetric])
  finally show ?thesis .
qed

lemma unit_antiparallel:
  assumes "dot d d = 1" and "1 + vy d = 0"
  shows "d = \<lparr>vx = 0, vy = - 1, vz = 0\<rparr>"
proof -
  have y: "vy d = - 1"
    using assms(2) by simp
  have "vx d * vx d + vz d * vz d = 0"
    using assms(1) by (simp add: dot_def y)
  then have "vx d = 0 \<and> vz d = 0"
    by (metis add_nonneg_eq_0_iff zero_le_square mult_eq_0_iff)
  with y show ?thesis
    by (cases d) simp
qed

lemma BondMesh_eq:
  "BondMesh s e ord =
     (if ord = 1 then
        [cylinder ''1'' (midpoint s e) (orientation s e) (2 / 25) (lengthV (subVectors e s))]
      else if ord = 2 then
        [cylinder ''d1'' (addVectors (midpoint s e) (multiplyScalar (lateral s e) (3 / 20)))
           (orientation s e) (2 / 25) (lengthV (subVectors e s)),
         cylinder ''d2'' (addVectors (midpoint s e) (multiplyScalar (lateral s e) (- (3 / 20))))
           (orientation s e) (2 / 25) (lengthV (subVectors e s))]
      else
        [cylinder ''t1'' (midpoint s e) (orientation s e) (2 / 25) (lengthV (subVectors e s)),
         cylinder ''t2'' (addVectors (midpoint s e) (multiplyScalar (lateral s e) (3 / 20)))
           (orientation s e) (2 / 25) (lengthV (subVectors e s)),
         cylinder ''t3'' (addVectors (midpoint s e) (multiplyScalar (lateral s e) (- (3 / 20))))
           (orientation s e) (2 / 25) (lengthV (subVectors e s))])"
  by (simp add: BondMesh_def Let_def midpoint_def orientation_def direction_def lateral_def
      up_def vec_def)

lemma reflectPoint_simps:
  "reflectPoint m m = m"
  "reflectPoint m (addVectors m (multiplyScalar l k)) = addVectors m (multiplyScalar l (- k))"
  by (simp_all add: reflectPoint_def subVectors_def multiplyScalar_def addVectors_def)

lemma halfTurn_simps:
  "halfTurn m d m = m"
  "dot l d = 0 \<Longrightarrow>
     halfTurn m d (addVectors m (multiplyScalar l k)) = addVectors m (multiplyScalar l (- k))"
proof -
  show "halfTurn m d m = m"
    by (simp add: halfTurn_def subVectors_def multiplyScalar_def addVectors_def dot_def)
  assume "dot l d = 0"
  then have "vx l * k * vx d + vy l * k * vy d + vz l * k * vz d = 0"
    by (simp add: dot_def algebra_simps) (metis distrib_left mult_zero_right)
  then show "halfTurn m d (addVectors m (multiplyScalar l k)) = addVectors m (multiplyScalar l (- k))"
    by (simp add: halfTurn_def subVectors_def multiplyScalar_def addVectors_def dot_def)
qed

lemma positions_BondMesh:
  "map position (BondMesh s e ord) =
     (if ord = 1 then [midpoint s e]
      else if ord = 2 then
        [addVectors (midpoint s e) (multiplyScalar (lateral s e) (3 / 20)),
         addVectors (midpoint s e) (multiplyScalar (lateral s e) (- (3 / 20)))]
      else
        [midpoint s e,
         addVectors (midpoint s e) (multiplyScalar (lateral s e) (3 / 20)),
         addVectors (midpoint s e) (multiplyScalar (lateral s e) (- (3 / 20)))])"
  by (simp add: BondMesh_eq cylinder_def)

lemma shared_BondMesh:
  assumes "c \<in> set (BondMesh s e ord)"
  shows "quaternion c = orientation s e \<and> cylLength c = lengthV (subVectors e s)
       \<and> cylRadius c = 2 / 25"
  using assms by (auto simp: BondMesh_eq cylinder_def split: if_splits)

lemma reflect_positions:
  "set (map (reflectPoint (midpoint s e)) (map position (BondMesh s e ord)))
     = set (map position (BondMesh s e ord))"
  unfolding positions_BondMesh by (auto simp: reflectPoint_simps)

lemma halfTurn_positions:
  assumes "dot (lateral s e) d = 0"
  shows "set (map (halfTurn (midpoint s e) d) (map position (BondMesh s e ord)))
     = set (map position (BondMesh s e ord))"
  unfolding positions_BondMesh by (auto simp: halfTurn_simps(2) [OF assms] halfTurn_simps(1))

lemma orientation_rotates:
  assumes "s \<noteq> e"
  shows "applyQuaternion up (orientation s e) = direction s e
       \<and> dot (lateral s e) (direction s e) = 0"
proof (cases "0 < 1 + vy (direction s e)")
  case True
  from rotation_up [OF direction_unit [OF assms] True] show ?thesis
    by (simp add: orientation_def lateral_def up_def vec_def)
next
  case False
  then have le: "1 + vy (direction s e) \<le> 0"
    by simp
  have u: "vx (direction s e) * vx (direction s e) + vy (direction s e) * vy (direction s e)
      + vz (direction s e) * vz (direction s e) = 1"
    using direction_unit [OF assms] by (simp add: dot_def)
  have "0 \<le> vx (direction s e) * vx (direction s e)"
    and "0 \<le> vz (direction s e) * vz (direction s e)"
    by simp_all
  with u have "vy (direction s e) * vy (direction s e) \<le> 1"
    by linarith
  then have "(- vy (direction s e))\<^sup>2 \<le> 1\<^sup>2"
    by (simp add: power2_eq_square)
  then have "- vy (direction s e) \<le> 1"
    by (rule power2_le_imp_le) simp
  with le have z: "1 + vy (direction s e) = 0"
    by simp
  have d: "direction s e = \<lparr>vx = 0, vy = - 1, vz = 0\<rparr>"
    by (rule unit_antiparallel [OF direction_unit [OF assms] z])
  have q: "orientation s e = halfTurnZ"
    unfolding orientation_def up_def vec_def
    by (rule setFromUnitVectors_down) (simp add: z)
  show ?thesis
    by (simp add: lateral_def q applyQuaternion_halfTurnZ d up_def vec_def dot_def)
qed

lemma sqrt_625: "sqrt 625 = 25"
  by (rule real_sqrt_unique) simp_all

lemma sqrt_64_25: "sqrt (64 / 25) = 8 / 5"
  by (rule real_sqrt_unique) (simp_all add: power2_eq_square)

lemma direction_example: "direction origin3 exampleEnd = vec (24 / 25) (7 / 25) 0"
  by (simp add: direction_def normalizeV_def lengthV_def subVectors_def vec_def divideScalar_def
      multiplyScalar_def sqrt_625 origin3_def exampleEnd_def)

lemma orientation_example:
  "orientation origin3 exampleEnd = \<lparr>qx = 0, qy = 0, qz = - (3 / 5), qw = 4 / 5\<rparr>"
proof -
  let ?d = "\<lparr>vx = 24 / 25, vy = 7 / 25, vz = 0\<rparr>"
  have u: "dot ?d ?d = 1"
    by (simp add: dot_def)
  have e: "0 < 1 + vy ?d"
    by simp
  show ?thesis
    unfolding orientation_def direction_example up_def vec_def setFromUnitVectors_up [OF u e]
    by (simp add: sqrt_64_25)
qed

lemma lateral_example: "lateral origin3 exampleEnd = vec (7 / 25) (- (24 / 25)) 0"
  by (simp add: lateral_def orientation_example applyQuaternion_def vec_def)

lemma BondMesh_example:
  "BondMesh origin3 exampleEnd 2 =
     [cylinder ''d1'' (vec (6021 / 500) (839 / 250) 0)
        \<lparr>qx = 0, qy = 0, qz = - (3 / 5), qw = 4 / 5\<rparr> (2 / 25) 25,
      cylinder ''d2'' (vec (5979 / 500) (911 / 250) 0)
        \<lparr>qx = 0, qy = 0, qz = - (3 / 5), qw = 4 / 5\<rparr> (2 / 25) 25]"
proof -
  have len: "lengthV (subVectors exampleEnd origin3) = 25"
    by (simp add: lengthV_def subVectors_def vec_def sqrt_625 origin3_def exampleEnd_def)
  have m: "midpoint origin3 exampleEnd = vec 12 (7 / 2) 0"
    by (simp add: midpoint_def multiplyScalar_def addVectors_def vec_def origin3_def
        exampleEnd_def)
  show ?thesis
    unfolding BondMesh_eq orientation_example lateral_example len m
    by (simp add: multiplyScalar_def addVectors_def vec_def)
qed







lemma threshold_large: "1000000 < overflowThreshold"
  by (simp add: overflowThreshold_def)

lemma fromReal_small: "\<bar>r\<bar> \<le> 1000000 \<Longrightarrow> fromReal r = Fin r"
  using threshold_large by (simp add: fromReal_def abs_le_iff)










lemma jsLength_zero: "jsLengthV (jsVec 0 0 0) = Fin 0"
  by (simp add: jsLengthV_def jsVec_def fromReal_small)


text \<open>
  What \<^verbatim>\<open>|| 1\<close> prevents: the zero vector divided by its own length is \<open>0 \<cdot> (1 / 0)\<close>, NaN
  in each coordinate.
\<close>

lemma divideScalar_zero_length:
  "jsDivideScalar (jsVec 0 0 0) (jsLengthV (jsVec 0 0 0)) = \<lparr>jvx = NaN, jvy = NaN, jvz = NaN\<rparr>"
  unfolding jsLength_zero
  by (simp add: jsDivideScalar_def jsMultiplyScalar_def jsVec_def signedInfinity_def)











section \<open>The claims\<close>

text \<open>
  C1. The scale derivation of the 2D layout: the mean computed by the loop is the mean
  Euclidean distance over exactly the bonds whose two indices resolve, and 1 when none does;
  the scale is the target bond length 60 divided by that mean, and the fixed 60 when the
  mean is not above 0.001; each normalized atom is the raw atom with both raw coordinates
  multiplied by this one scale.
\<close>

theorem scale_derivation:
  "avgLen data = meanRawBondLength data
   \<and> scale data = (if meanRawBondLength data > 1 / 1000
                   then TARGET_BOND_LENGTH / meanRawBondLength data else 60)
   \<and> TARGET_BOND_LENGTH = 60
   \<and> normalizedAtoms (layout data) = map (scaleAtom (scale data)) (atoms data)
   \<and> pos_x (scaleAtom (scale data) a) = x2d a * scale data
   \<and> pos_y (scaleAtom (scale data) a) = y2d a * scale data
   \<and> Atom.truncate (scaleAtom (scale data) a) = a"
  by (simp add: avgLen_mean layout_atoms scaleAtom_simps scale_def TARGET_BOND_LENGTH_def)

theorem scale_derivation_witness:
  "avgLen exampleCO = 5 \<and> scale exampleCO = 12
   \<and> map (\<lambda>a. (pos_x a, pos_y a)) (normalizedAtoms (layout exampleCO)) = [(0, 0), (36, 48)]"
  using scale_derivation [of exampleCO]
  apply (simp add: mean_exampleCO)
  apply (simp add: exampleCO_def atom2d_def scaleAtom_simps)
  done

text \<open>
  C2, as amended. For every molecule in which at least one bond resolves and whose mean raw
  bond length is above 0.001, the mean normalized bond length is the target constant 60.
  (As stated, for every molecule with at least one bond, the claim fails where the mean raw
  length is at most 0.001 and the fixed scale 60 is used: see the counterexample.)
\<close>

theorem mean_normalized_length:
  assumes "filter (resolves (atoms data)) (bonds data) \<noteq> []"
    and "meanRawBondLength data > 1 / 1000"
  shows "meanNormalizedBondLength data = TARGET_BOND_LENGTH"
proof -
  let ?rs = "filter (resolves (atoms data)) (bonds data)"
  obtain b where "b \<in> set ?rs"
    using assms(1) by (cases ?rs) auto
  then have ne: "atoms data \<noteq> []"
    using resolves_atoms by fastforce
  have m: "meanRawBondLength data = sum_list (map (rawBondLength (atoms data)) ?rs) / real (length ?rs)"
    using assms(1) by (simp add: meanRawBondLength_def Let_def)
  have sc: "scale data = TARGET_BOND_LENGTH / meanRawBondLength data"
    using assms(2) by (simp add: scale_def avgLen_mean)
  have "meanNormalizedBondLength data = \<bar>scale data\<bar> * meanRawBondLength data"
    by (simp only: meanNormalized_scaled [OF ne] m)
  also have "\<dots> = TARGET_BOND_LENGTH"
    using assms(2) by (simp add: sc TARGET_BOND_LENGTH_def)
  finally show ?thesis .
qed

theorem mean_normalized_length_witness:
  "meanRawBondLength exampleCO = 5 \<and> meanNormalizedBondLength exampleCO = 60"
proof -
  have r: "filter (resolves (atoms exampleCO)) (bonds exampleCO) \<noteq> []"
    by (simp add: exampleCO_def resolves_def lookup_def)
  have m: "meanRawBondLength exampleCO > 1 / 1000"
    by (simp add: mean_exampleCO)
  show ?thesis
    using mean_normalized_length [OF r m] by (simp add: mean_exampleCO TARGET_BOND_LENGTH_def)
qed

text \<open>
  The claim C2 as stated fails for two atoms 0.0005 apart with one bond: the scale is the
  fallback 60 and the mean normalized bond length is 0.03, not 60.
\<close>

theorem mean_normalized_length_counterexample:
  "bonds exampleTiny = [\<lparr>source = 0, target = 1, order = 1\<rparr>]
   \<and> scale exampleTiny = 60
   \<and> meanNormalizedBondLength exampleTiny = 3 / 100
   \<and> meanNormalizedBondLength exampleTiny \<noteq> TARGET_BOND_LENGTH"
proof -
  have ne: "atoms exampleTiny \<noteq> []"
    by (simp add: exampleTiny_def)
  have r: "filter (resolves (atoms exampleTiny)) (bonds exampleTiny) = bonds exampleTiny"
    by (simp add: exampleTiny_def resolves_def lookup_def)
  have "meanNormalizedBondLength exampleTiny = \<bar>scale exampleTiny\<bar> * meanRawBondLength exampleTiny"
    unfolding meanNormalized_scaled [OF ne] meanRawBondLength_def Let_def r
    by (simp add: exampleTiny_def)
  then have "meanNormalizedBondLength exampleTiny = 3 / 100"
    by (simp add: scale_exampleTiny mean_exampleTiny)
  then show ?thesis
    by (simp add: scale_exampleTiny TARGET_BOND_LENGTH_def) (simp add: exampleTiny_def)
qed

text \<open>
  C3, as amended. A 2D bond of order \<open>o\<close> in 1, 2, 3 whose two atoms resolve and whose
  normalized length is at least 1 yields exactly \<open>o\<close> segments: the centre segment for
  order 1; the centre segment moved by +3 and by -3 times the unit normal for order 2; the
  centre segment and the same moved by +7.5 and -7.5 times the unit normal for order 3. The
  normal has length 1 and is orthogonal to the bond direction. (As stated, for every bond
  whose normalized endpoints do not coincide, the claim fails: see the counterexample.)
\<close>

theorem bond_segments:
  assumes "lookup nas (source b) = Some s" and "lookup nas (target b) = Some e"
    and "1 \<le> dist2d s e" and "order b \<in> {1, 2, 3}"
  shows "length (bondLines nas b) = nat (order b)
       \<and> (order b = 1 \<longrightarrow> bondLines nas b = [centreLine s e])
       \<and> (order b = 2 \<longrightarrow> bondLines nas b =
             [shiftLine 3 (unitNormal s e) (centreLine s e),
              shiftLine (- 3) (unitNormal s e) (centreLine s e)])
       \<and> (order b = 3 \<longrightarrow> bondLines nas b =
             [centreLine s e,
              shiftLine (15 / 2) (unitNormal s e) (centreLine s e),
              shiftLine (- (15 / 2)) (unitNormal s e) (centreLine s e)])
       \<and> (fst (unitNormal s e))\<^sup>2 + (snd (unitNormal s e))\<^sup>2 = 1
       \<and> fst (unitNormal s e) * (pos_x e - pos_x s)
           + snd (unitNormal s e) * (pos_y e - pos_y s) = 0
       \<and> (3 :: real) < 15 / 2"
proof -
  have pos: "0 < dist2d s e"
    using assms(3) by simp
  show ?thesis
    using assms(4) bondLines_long [OF assms(1-3)] unitNormal_unit [OF pos] unitNormal_perp [of s e]
    by auto
qed

theorem bond_segments_witness:
  "dist2d (scaleAtom 12 (atom2d 0 ''C'' 0 0)) (scaleAtom 12 (atom2d 1 ''O'' 3 4)) = 60
   \<and> order (bonds exampleCO ! 0) = 2
   \<and> bondLines (normalizedAtoms (layout exampleCO)) (bonds exampleCO ! 0) =
       [Line (- (12 / 5)) (9 / 5) (168 / 5) (249 / 5), Line (12 / 5) (- (9 / 5)) (192 / 5) (231 / 5)]"
proof -
  let ?nas = "normalizedAtoms (layout exampleCO)"
  let ?b = "bonds exampleCO ! 0"
  let ?s = "scaleAtom 12 (atom2d 0 ''C'' 0 0)"
  let ?e = "scaleAtom 12 (atom2d 1 ''O'' 3 4)"
  have s: "lookup ?nas (source ?b) = Some ?s"
    by (simp add: atoms_exampleCO lookup_def) (simp add: exampleCO_def)
  have e: "lookup ?nas (target ?b) = Some ?e"
    by (simp add: atoms_exampleCO lookup_def) (simp add: exampleCO_def)
  have d: "dist2d ?s ?e = 60"
    by (simp add: dist2d_def scaleAtom_simps atom2d_def sqrt_3600)
  have l: "1 \<le> dist2d ?s ?e"
    by (simp add: d)
  have o: "order ?b = 2"
    by (simp add: exampleCO_def)
  have o': "order ?b \<in> {1, 2, 3}"
    by (simp add: o)
  have n: "unitNormal ?s ?e = (- (4 / 5), 3 / 5)"
    by (simp add: unitNormal_def d) (simp add: scaleAtom_simps atom2d_def)
  have c: "centreLine ?s ?e = Line 0 0 36 48"
    by (simp add: centreLine_def scaleAtom_simps atom2d_def)
  show ?thesis
    using bond_segments [OF s e l o'] by (simp add: o d n c)
qed

text \<open>
  The claim C3 as stated fails at a triple bond with distinct normalized endpoints 1/2
  apart: no segment is drawn instead of three.
\<close>

theorem bond_segments_counterexample:
  "order (bonds exampleClose ! 0) = 3
   \<and> lookup (normalizedAtoms (layout exampleClose)) (source (bonds exampleClose ! 0))
       = Some (scaleAtom 1 (atom2d 0 ''C'' 0 0))
   \<and> lookup (normalizedAtoms (layout exampleClose)) (target (bonds exampleClose ! 0))
       = Some (scaleAtom 1 (atom2d 1 ''C'' (1 / 2) 0))
   \<and> pos_x (scaleAtom 1 (atom2d 0 ''C'' 0 0)) \<noteq> pos_x (scaleAtom 1 (atom2d 1 ''C'' (1 / 2) 0))
   \<and> length (bondLines (normalizedAtoms (layout exampleClose)) (bonds exampleClose ! 0)) \<noteq> 3"
proof -
  let ?nas = "normalizedAtoms (layout exampleClose)"
  let ?b = "bonds exampleClose ! 0"
  let ?s = "scaleAtom 1 (atom2d 0 ''C'' 0 0)"
  let ?e = "scaleAtom 1 (atom2d 1 ''C'' (1 / 2) 0)"
  have s: "lookup ?nas (source ?b) = Some ?s"
    by (simp add: atoms_exampleClose lookup_def) (simp add: exampleClose_def)
  have e: "lookup ?nas (target ?b) = Some ?e"
    by (simp add: atoms_exampleClose lookup_def) (simp add: exampleClose_def)
  have d: "dist2d ?s ?e < 1"
    by (simp add: dist2d_def scaleAtom_simps atom2d_def)
  have "bondLines ?nas ?b = []"
    by (rule bondLines_short [OF s e d])
  then show ?thesis
    using s e by (simp add: scaleAtom_simps atom2d_def) (simp add: exampleClose_def)
qed

text \<open>
  C4. For a 3D bond of order \<open>o\<close> in 1, 2, 3 with distinct endpoints, BondMesh yields
  exactly \<open>o\<close> cylinders, all with the one orientation
  \<^verbatim>\<open>setFromUnitVectors(up, diff.normalize())\<close>, which takes the up axis to the normalized
  bond direction, with the radius 0.08 and with the length of the difference vector, the
  (positive) distance of the endpoints. The positions are the midpoint for order 1, the
  midpoint plus and minus 0.15 times the lateral axis for order 2, and all three for order
  3; the lateral axis is orthogonal to the bond direction. So the positions are symmetric
  under the point reflection through the midpoint and under the half-turn about the bond
  axis.
\<close>

theorem bond_cylinders:
  assumes "start \<noteq> endV" and "ord \<in> {1, 2, 3}"
  shows "length (BondMesh start endV ord) = nat ord
       \<and> (\<forall>c\<in>set (BondMesh start endV ord).
            quaternion c = orientation start endV
          \<and> cylLength c = lengthV (subVectors endV start)
          \<and> cylRadius c = 2 / 25)
       \<and> applyQuaternion up (orientation start endV) = direction start endV
       \<and> dot (direction start endV) (direction start endV) = 1
       \<and> 0 < lengthV (subVectors endV start)
       \<and> map position (BondMesh start endV ord) =
           (if ord = 1 then [midpoint start endV]
            else if ord = 2 then
              [addVectors (midpoint start endV) (multiplyScalar (lateral start endV) (3 / 20)),
               addVectors (midpoint start endV) (multiplyScalar (lateral start endV) (- (3 / 20)))]
            else
              [midpoint start endV,
               addVectors (midpoint start endV) (multiplyScalar (lateral start endV) (3 / 20)),
               addVectors (midpoint start endV) (multiplyScalar (lateral start endV) (- (3 / 20)))])
       \<and> dot (lateral start endV) (direction start endV) = 0
       \<and> set (map (reflectPoint (midpoint start endV)) (map position (BondMesh start endV ord)))
           = set (map position (BondMesh start endV ord))
       \<and> set (map (halfTurn (midpoint start endV) (direction start endV))
                 (map position (BondMesh start endV ord)))
           = set (map position (BondMesh start endV ord))"
proof -
  have len: "length (BondMesh start endV ord) = nat ord"
    using assms(2) by (auto simp: length_BondMesh)
  note rot = orientation_rotates [OF assms(1)]
  have ax: "set (map (halfTurn (midpoint start endV) (direction start endV))
                 (map position (BondMesh start endV ord)))
           = set (map position (BondMesh start endV ord))"
    using rot by (intro halfTurn_positions) simp
  show ?thesis
    using len shared_BondMesh [of _ start endV ord] lengthV_pos [OF assms(1)]
      direction_unit [OF assms(1)] positions_BondMesh [of start endV ord]
      reflect_positions [of start endV ord] rot ax
    by blast
qed

theorem bond_cylinders_witness:
  "BondMesh origin3 exampleEnd 2 =
     [cylinder ''d1'' (vec (6021 / 500) (839 / 250) 0)
        \<lparr>qx = 0, qy = 0, qz = - (3 / 5), qw = 4 / 5\<rparr> (2 / 25) 25,
      cylinder ''d2'' (vec (5979 / 500) (911 / 250) 0)
        \<lparr>qx = 0, qy = 0, qz = - (3 / 5), qw = 4 / 5\<rparr> (2 / 25) 25]
   \<and> applyQuaternion up \<lparr>qx = 0, qy = 0, qz = - (3 / 5), qw = 4 / 5\<rparr> = vec (24 / 25) (7 / 25) 0
   \<and> lateral origin3 exampleEnd = vec (7 / 25) (- (24 / 25)) 0
   \<and> dot (vec (7 / 25) (- (24 / 25)) 0) (vec (24 / 25) (7 / 25) 0) = 0"
proof -
  have ne: "origin3 \<noteq> exampleEnd"
    by (simp add: vec_def origin3_def exampleEnd_def)
  have o: "(2 :: int) \<in> {1, 2, 3}"
    by simp
  show ?thesis
    using bond_cylinders [OF ne o]
    unfolding BondMesh_example lateral_example orientation_example direction_example
    by simp
qed

text \<open>
  C5. For a molecule with at least one atom, every circle drawn for a normalized atom (the
  atom circle, the lone-pair dots, the charge badge, whatever the display flags), taken
  with its radius and half its stroke width, lies strictly inside the view frame: each atom
  centre is at least the padding 40 from every side of the frame, and no circle reaches
  further than 28.3 from its atom centre along either axis.
\<close>

theorem frame_contains_decorations:
  assumes "atoms data \<noteq> []"
    and "a \<in> set (normalizedAtoms (layout data))"
    and "(cx, cy, ext) \<in> set (circles (atomGroup sl sc a))"
  shows "boxX (viewBox (layout data)) < cx - ext
       \<and> cx + ext < boxX (viewBox (layout data)) + boxW (viewBox (layout data))
       \<and> boxY (viewBox (layout data)) < cy - ext
       \<and> cy + ext < boxY (viewBox (layout data)) + boxH (viewBox (layout data))
       \<and> boxX (viewBox (layout data)) + PADDING \<le> pos_x a
       \<and> pos_x a \<le> boxX (viewBox (layout data)) + boxW (viewBox (layout data)) - PADDING
       \<and> boxY (viewBox (layout data)) + PADDING \<le> pos_y a
       \<and> pos_y a \<le> boxY (viewBox (layout data)) + boxH (viewBox (layout data)) - PADDING
       \<and> \<bar>cx - pos_x a\<bar> + ext \<le> 283 / 10
       \<and> \<bar>cy - pos_y a\<bar> + ext \<le> 283 / 10
       \<and> 283 / 10 < PADDING"
proof -
  obtain mn mx my My where v: "viewBox (layout data) = frame (mn, mx, my, My)"
    and b: "mn \<le> pos_x a \<and> pos_x a \<le> mx \<and> my \<le> pos_y a \<and> pos_y a \<le> My"
    using layout_viewBox [OF assms(1)] assms(2) by blast
  have i: "boxX (viewBox (layout data)) + PADDING \<le> pos_x a
       \<and> pos_x a \<le> boxX (viewBox (layout data)) + boxW (viewBox (layout data)) - PADDING
       \<and> boxY (viewBox (layout data)) + PADDING \<le> pos_y a
       \<and> pos_y a \<le> boxY (viewBox (layout data)) + boxH (viewBox (layout data)) - PADDING"
    using b by (intro frame_inset [OF v]) simp_all
  have p: "283 / 10 < PADDING"
    by (simp add: PADDING_def)
  note d = circles_atomGroup [OF assms(3)]
  have "\<bar>cx - pos_x a\<bar> \<le> 283 / 10 - ext" and "\<bar>cy - pos_y a\<bar> \<le> 283 / 10 - ext"
    using d unfolding abs_le_iff by linarith+
  then have "\<bar>cx - pos_x a\<bar> + ext \<le> 283 / 10" and "\<bar>cy - pos_y a\<bar> + ext \<le> 283 / 10"
    by linarith+
  moreover have "boxX (viewBox (layout data)) < cx - ext"
    "cx + ext < boxX (viewBox (layout data)) + boxW (viewBox (layout data))"
    "boxY (viewBox (layout data)) < cy - ext"
    "cy + ext < boxY (viewBox (layout data)) + boxH (viewBox (layout data))"
    using i d unfolding PADDING_def by linarith+
  ultimately show ?thesis
    using i p by blast
qed

theorem frame_contains_decorations_witness:
  "viewBox (layout exampleHydroxide) = \<lparr>boxX = - 40, boxY = - 40, boxW = 116, boxH = 128\<rparr>
   \<and> circles (atomGroup True True
        (scaleAtom 12 ((atom2d 0 ''O'' 0 0)\<lparr>lonePairs := 1, charge := - 1\<rparr>))) =
       [(0, 0, 15), (- 6, - (31 / 2), 9 / 5), (- 6, - (41 / 2), 9 / 5), (10, - 10, 13 / 2)]
   \<and> boxY (viewBox (layout exampleHydroxide)) < - (41 / 2) - 9 / 5"
proof -
  let ?a = "scaleAtom 12 ((atom2d 0 ''O'' 0 0)\<lparr>lonePairs := 1, charge := - 1\<rparr>)"
  have ne: "atoms exampleHydroxide \<noteq> []"
    by (simp add: exampleHydroxide_def)
  have m: "?a \<in> set (normalizedAtoms (layout exampleHydroxide))"
    by (simp add: atoms_exampleHydroxide)
  have c: "(- 6, - (41 / 2), 9 / 5) \<in> set (circles (atomGroup True True ?a))"
    by (simp add: circles_exampleHydroxide)
  show ?thesis
    using frame_contains_decorations [OF ne m c]
    by (simp add: viewBox_exampleHydroxide circles_exampleHydroxide)
qed






text \<open>
  C8. With an empty atom list the layout is the default frame \<^verbatim>\<open>0 0 100 100\<close> with no
  normalized atoms and no bonds, whatever the bond list holds; nothing is drawn, and no
  division has been evaluated, the branch returning before any.
\<close>

theorem empty_atoms:
  "layout \<lparr>atoms = [], bonds = bs\<rparr> =
     \<lparr>normalizedAtoms = [], layoutBonds = [],
      viewBox = \<lparr>boxX = 0, boxY = 0, boxW = 100, boxH = 100\<rparr>\<rparr>
   \<and> renderBonds \<lparr>atoms = [], bonds = bs\<rparr> = []
   \<and> map (atomGroup sl sc) (normalizedAtoms (layout \<lparr>atoms = [], bonds = bs\<rparr>)) = []"
  by (simp add: layout_def renderBonds_def)

text \<open>
  C9. A 2D bond whose two atoms resolve and whose normalized length is below 1 yields no
  line segment, whatever its order, also when the endpoints are distinct; a bond that
  yields a segment has a normalized length of at least 1.
\<close>

theorem short_bond_no_segments:
  assumes "lookup nas (source b) = Some s" and "lookup nas (target b) = Some e"
  shows "(dist2d s e < 1 \<longrightarrow> bondLines nas b = [])
       \<and> (bondLines nas b \<noteq> [] \<longrightarrow> 1 \<le> dist2d s e)"
  using bondLines_short [OF assms] by fastforce

theorem short_bond_no_segments_witness:
  "x2d (atom2d 0 ''C'' 0 0) \<noteq> x2d (atom2d 1 ''C'' (1 / 2) 0)
   \<and> order (bonds exampleClose ! 0) = 3
   \<and> dist2d (scaleAtom 1 (atom2d 0 ''C'' 0 0)) (scaleAtom 1 (atom2d 1 ''C'' (1 / 2) 0)) = 1 / 2
   \<and> bondLines (normalizedAtoms (layout exampleClose)) (bonds exampleClose ! 0) = []"
proof -
  let ?nas = "normalizedAtoms (layout exampleClose)"
  let ?b = "bonds exampleClose ! 0"
  let ?s = "scaleAtom 1 (atom2d 0 ''C'' 0 0)"
  let ?e = "scaleAtom 1 (atom2d 1 ''C'' (1 / 2) 0)"
  have s: "lookup ?nas (source ?b) = Some ?s"
    by (simp add: atoms_exampleClose lookup_def) (simp add: exampleClose_def)
  have e: "lookup ?nas (target ?b) = Some ?e"
    by (simp add: atoms_exampleClose lookup_def) (simp add: exampleClose_def)
  have d: "dist2d ?s ?e = 1 / 2"
    by (simp add: dist2d_def scaleAtom_simps atom2d_def)
  have "bondLines ?nas ?b = []"
    using short_bond_no_segments [OF s e] d by simp
  then show ?thesis
    using d by (simp add: atom2d_def) (simp add: exampleClose_def)
qed

text \<open>
  C10. For a bond whose order is none of 1, 2, 3 the two views differ: the 2D view draws no
  segment, and the 3D view takes its last branch and yields the three cylinders of a triple
  bond between the same endpoints.
\<close>

theorem order_outside_range:
  assumes "order b \<notin> {1, 2, 3}"
  shows "bondLines nas b = []
       \<and> BondMesh s e (order b) = BondMesh s e 3
       \<and> length (BondMesh s e (order b)) = 3
       \<and> bondMeshes as b = bondMeshes as (b\<lparr>order := 3\<rparr>)"
  using assms
  by (simp add: bondLines_other BondMesh_other [of "order b"] length_BondMesh bondMeshes_def
      split: option.splits)

theorem order_outside_range_witness:
  "bondLines (normalizedAtoms (layout exampleCO)) \<lparr>source = 0, target = 1, order = 0\<rparr> = []
   \<and> BondMesh (vec 0 0 0) (vec 0 2 0) 0 = BondMesh (vec 0 0 0) (vec 0 2 0) 3
   \<and> length (BondMesh (vec 0 0 0) (vec 0 2 0) 0) = 3"
proof -
  have o: "order \<lparr>source = 0, target = 1, order = 0\<rparr> \<notin> {1, 2, 3}"
    by simp
  show ?thesis
    using order_outside_range [OF o, of "normalizedAtoms (layout exampleCO)"
        "vec 0 0 0" "vec 0 2 0" "[]"]
    by (simp add: length_BondMesh)
qed

end
